theory Spec2Isabelle
  imports Main "HOL-Library.Word"
begin

section \<open>Python values, store payloads and nodes\<close>

text \<open>
  The module \<^verbatim>\<open>hickle/loaders/load_python3.py\<close> dumps the built-in Python types into an
  HDF5 group and loads them back. Everything it does goes through three collaborators
  that are not part of the module: the Python built-ins (\<^verbatim>\<open>list\<close>, \<^verbatim>\<open>str\<close>, \<^verbatim>\<open>type\<close>,
  \<^verbatim>\<open>isinstance\<close>, ...), the store (\<^verbatim>\<open>h5py\<close>) and the helper \<^verbatim>\<open>get_type_and_data\<close>. The
  embedding below makes each of them an explicit definition.

  A scalar the store can hold is an \<open>atom\<close>. A Python \<^verbatim>\<open>int\<close> is unbounded (\<open>int\<close>); a
  \<^verbatim>\<open>float\<close> is its IEEE-754 binary64 bit pattern (\<open>64 word\<close>), a \<^verbatim>\<open>complex\<close> a pair of
  them (real, imaginary): no claim needs floating-point arithmetic, only that a float
  is stored and read back. \<^verbatim>\<open>bytes\<close> and \<^verbatim>\<open>str\<close> are both character lists, kept apart
  by their constructor.
\<close>

datatype atom =
    AInt int
  | AFloat "64 word"
  | ABool bool
  | AComplex "64 word" "64 word"
  | ABytes string
  | AStr string

text \<open>
  A value handed to a dumper. The containers are flat: their elements are scalars, as the
  payload of a node is a scalar or an array of scalars. A \<^verbatim>\<open>set\<close> is carried as the list
  of its elements in the order in which the interpreter iterates it; the order is
  arbitrary, which is why equality of sets (\<open>py_equal\<close> below) compares membership only.
  \<^verbatim>\<open>bytearray\<close> stands for the kinds the module does not register (its registry line is
  commented out in the source).
\<close>

datatype pyval =
    Atom atom
  | PyList "atom list"
  | PyTuple "atom list"
  | PySet "atom list"
  | PyNone
  | PyByteArray string

datatype pytype =
    T_list | T_tuple | T_set | T_bytes | T_str
  | T_int | T_float | T_bool | T_complex | T_NoneType | T_bytearray

datatype error =
    TypeError | KeyError | IndexError | ValueError | NameError
  | UnsupportedTypeError | UnknownTagError | UnknownSubtypeError | MalformedPayloadError

text \<open>
  \<open>TypeError\<close> to \<open>NameError\<close> are the Python exceptions the module's statements can raise.
  The last four are the names of the specification's error taxonomy; the two dispatchers
  (which are not in the module) raise the first two of them, and no statement of the
  module raises any of the four.
\<close>

datatype payload = Scalar atom | Array "atom list"

datatype attr = AttrBytes string | AttrList "string list"

type_synonym kwargs = "(string \<times> atom) list"

record node =
  payload :: payload
  options :: kwargs
  attrs :: "string \<rightharpoonup> attr"

type_synonym group = "string \<rightharpoonup> node"

section \<open>Python built-ins\<close>

fun type_of_atom :: "atom \<Rightarrow> pytype" where
  "type_of_atom (AInt n) = T_int"
| "type_of_atom (AFloat f) = T_float"
| "type_of_atom (ABool b) = T_bool"
| "type_of_atom (AComplex re im) = T_complex"
| "type_of_atom (ABytes s) = T_bytes"
| "type_of_atom (AStr s) = T_str"

text \<open>\<^verbatim>\<open>type(py_obj)\<close>: the exact class, so a \<^verbatim>\<open>bool\<close> is not an \<^verbatim>\<open>int\<close> here.\<close>

fun type_py :: "pyval \<Rightarrow> pytype" where
  "type_py (Atom a) = type_of_atom a"
| "type_py (PyList xs) = T_list"
| "type_py (PyTuple xs) = T_tuple"
| "type_py (PySet xs) = T_set"
| "type_py PyNone = T_NoneType"
| "type_py (PyByteArray s) = T_bytearray"

fun type_name :: "pytype \<Rightarrow> string" where
  "type_name T_list = ''list''"
| "type_name T_tuple = ''tuple''"
| "type_name T_set = ''set''"
| "type_name T_bytes = ''bytes''"
| "type_name T_str = ''str''"
| "type_name T_int = ''int''"
| "type_name T_float = ''float''"
| "type_name T_bool = ''bool''"
| "type_name T_complex = ''complex''"
| "type_name T_NoneType = ''NoneType''"
| "type_name T_bytearray = ''bytearray''"

text \<open>
  \<^verbatim>\<open>str(type(py_obj))\<close>, for instance \<^verbatim>\<open><class 'list'>\<close>. The module turns it into bytes
  with \<^verbatim>\<open>bytes(..., 'ascii')\<close>, which keeps the characters (all are ASCII).
\<close>

definition str_type :: "pytype \<Rightarrow> string" where
  "str_type t = ''<class '' @ [CHR 0x27] @ type_name t @ [CHR 0x27] @ ''>''"

text \<open>\<^verbatim>\<open>'%i' % n\<close> for a natural number: its decimal digits.\<close>

fun str_nat :: "nat \<Rightarrow> string" where
  "str_nat n =
     (if n < 10 then [char_of (48 + n)]
      else str_nat (n div 10) @ [char_of (48 + n mod 10)])"

declare str_nat.simps [simp del]

definition str_int :: "int \<Rightarrow> string" where
  "str_int i = (if i < 0 then CHR ''-'' # str_nat (nat (- i)) else str_nat (nat i))"

text \<open>\<^verbatim>\<open>'data_%i' % call_id\<close>, the name of the dataset a dumper creates.\<close>

definition dataset_name :: "int \<Rightarrow> string" where
  "dataset_name call_id = ''data_'' @ str_int call_id"

text \<open>Iterating \<^verbatim>\<open>bytes\<close> yields the byte values, iterating a \<^verbatim>\<open>str\<close> its characters.\<close>

definition iter_bytes :: "string \<Rightarrow> atom list" where
  "iter_bytes s = map (\<lambda>ch. AInt (of_char ch)) s"

definition iter_str :: "string \<Rightarrow> atom list" where
  "iter_str s = map (\<lambda>ch. AStr [ch]) s"

text \<open>\<^verbatim>\<open>list(py_obj)\<close>: a number and \<^verbatim>\<open>None\<close> are not iterable.\<close>

fun py_list :: "pyval \<Rightarrow> error + atom list" where
  "py_list (PyList xs) = Inr xs"
| "py_list (PyTuple xs) = Inr xs"
| "py_list (PySet xs) = Inr xs"
| "py_list (PyByteArray s) = Inr (iter_bytes s)"
| "py_list (Atom (ABytes s)) = Inr (iter_bytes s)"
| "py_list (Atom (AStr s)) = Inr (iter_str s)"
| "py_list (Atom a) = Inl TypeError"
| "py_list PyNone = Inl TypeError"

text \<open>
  Iterating what a node holds (\<^verbatim>\<open>list(data)\<close>, \<^verbatim>\<open>tuple(data)\<close>, \<^verbatim>\<open>set(data)\<close>): an array
  yields its elements in stored order; a zero-dimensional numeric scalar is not iterable.
\<close>

fun py_iter :: "payload \<Rightarrow> error + atom list" where
  "py_iter (Array xs) = Inr xs"
| "py_iter (Scalar (ABytes s)) = Inr (iter_bytes s)"
| "py_iter (Scalar (AStr s)) = Inr (iter_str s)"
| "py_iter (Scalar a) = Inl TypeError"

text \<open>\<^verbatim>\<open>data[0]\<close>: \<^verbatim>\<open>IndexError\<close> on an empty array, on an empty string and on a numeric scalar.\<close>

fun getitem0 :: "payload \<Rightarrow> error + atom" where
  "getitem0 (Array []) = Inl IndexError"
| "getitem0 (Array (x # xs)) = Inr x"
| "getitem0 (Scalar (ABytes [])) = Inl IndexError"
| "getitem0 (Scalar (ABytes (ch # s))) = Inr (AInt (of_char ch))"
| "getitem0 (Scalar (AStr [])) = Inl IndexError"
| "getitem0 (Scalar (AStr (ch # s))) = Inr (AStr [ch])"
| "getitem0 (Scalar a) = Inl IndexError"

text \<open>
  Calling a built-in class on data read from a node: \<^verbatim>\<open>int(data)\<close>, \<^verbatim>\<open>bool(data)\<close>,
  \<^verbatim>\<open>bytes(data[0])\<close>, \<^verbatim>\<open>str(data[0])\<close>, ... The result of the call, when there is one, is
  an object of the class that is called: \<^verbatim>\<open>bool(x)\<close> is a \<^verbatim>\<open>bool\<close> whatever \<open>x\<close> is. On a
  scalar that already is of that class the call returns the scalar unchanged;
  \<^verbatim>\<open>int(True)\<close> is 1 and \<^verbatim>\<open>bool(n)\<close> is \<^verbatim>\<open>n != 0\<close>. Every other combination
  (\<^verbatim>\<open>int(b'12')\<close>, \<^verbatim>\<open>float(3)\<close>, \<^verbatim>\<open>bool(2.5)\<close>, \<^verbatim>\<open>str(5)\<close>, a call on an array) is a
  conversion of the Python runtime, some of them floating-point roundings. Their values
  are not fixed here: they are the fields of the parameter \<open>c\<close>, one per class, each
  returning a value of that class or raising, so every theorem below holds whatever
  these conversions compute.
\<close>

record coerce =
  py_int :: "payload \<Rightarrow> error + int"
  py_float :: "payload \<Rightarrow> error + 64 word"
  py_bool :: "payload \<Rightarrow> error + bool"
  py_complex :: "payload \<Rightarrow> error + 64 word \<times> 64 word"
  py_bytes :: "payload \<Rightarrow> error + string"
  py_str :: "payload \<Rightarrow> error + string"

text \<open>
  \<open>construct c t data\<close> is the call \<^verbatim>\<open>t(data)\<close> for the six scalar classes. The loaders call
  no other class this way (the last equation is never reached from them).
\<close>

fun construct :: "coerce \<Rightarrow> pytype \<Rightarrow> payload \<Rightarrow> error + pyval" where
  "construct c T_int (Scalar (AInt n)) = Inr (Atom (AInt n))"
| "construct c T_int (Scalar (ABool b)) = Inr (Atom (AInt (if b then 1 else 0)))"
| "construct c T_int data =
     (case py_int c data of Inl e \<Rightarrow> Inl e | Inr n \<Rightarrow> Inr (Atom (AInt n)))"
| "construct c T_bool (Scalar (ABool b)) = Inr (Atom (ABool b))"
| "construct c T_bool (Scalar (AInt n)) = Inr (Atom (ABool (n \<noteq> 0)))"
| "construct c T_bool data =
     (case py_bool c data of Inl e \<Rightarrow> Inl e | Inr b \<Rightarrow> Inr (Atom (ABool b)))"
| "construct c T_float (Scalar (AFloat f)) = Inr (Atom (AFloat f))"
| "construct c T_float data =
     (case py_float c data of Inl e \<Rightarrow> Inl e | Inr f \<Rightarrow> Inr (Atom (AFloat f)))"
| "construct c T_complex (Scalar (AComplex re im)) = Inr (Atom (AComplex re im))"
| "construct c T_complex data =
     (case py_complex c data of
        Inl e \<Rightarrow> Inl e
      | Inr (re, im) \<Rightarrow> Inr (Atom (AComplex re im)))"
| "construct c T_bytes (Scalar (ABytes s)) = Inr (Atom (ABytes s))"
| "construct c T_bytes data =
     (case py_bytes c data of Inl e \<Rightarrow> Inl e | Inr s \<Rightarrow> Inr (Atom (ABytes s)))"
| "construct c T_str (Scalar (AStr s)) = Inr (Atom (AStr s))"
| "construct c T_str data =
     (case py_str c data of Inl e \<Rightarrow> Inl e | Inr s \<Rightarrow> Inr (Atom (AStr s)))"
| "construct c t data = Inl TypeError"

text \<open>A runtime in which every conversion left open above raises; used for closed examples.\<close>

definition no_coerce :: coerce where
  "no_coerce =
     \<lparr>py_int = (\<lambda>data. Inl TypeError), py_float = (\<lambda>data. Inl TypeError),
      py_bool = (\<lambda>data. Inl TypeError), py_complex = (\<lambda>data. Inl TypeError),
      py_bytes = (\<lambda>data. Inl TypeError), py_str = (\<lambda>data. Inl TypeError)\<rparr>"

section \<open>The store\<close>

text \<open>
  The store boundary (\<^verbatim>\<open>h5py\<close>). A group maps dataset names to nodes.
  \<^verbatim>\<open>h_group.create_dataset(name, data=..., **kwargs)\<close> refuses a name that is taken and
  otherwise adds a node that holds the payload as given and records the options it was
  created with; \<^verbatim>\<open>d.attrs[key] = value\<close> and \<^verbatim>\<open>dset[0] = value\<close> update the node behind the
  handle. The store is idealised: it is taken to hold what it is given. The real store
  fixes one element type per dataset (64-bit integers, so a larger \<^verbatim>\<open>int\<close> is refused; one
  type for all elements of an array, so a list of mixed or text elements is converted or
  refused), does not keep a NUL at the end of a string, and checks the options it is
  given. None of this is modelled: \<open>create_dataset\<close> says what happens to a payload and to
  options that the store accepts. The predicate \<open>representative\<close> below delimits the values
  for which that is the case.
\<close>

definition create_dataset :: "group \<Rightarrow> string \<Rightarrow> payload \<Rightarrow> kwargs \<Rightarrow> error + group" where
  "create_dataset h_group name data kw =
     (case h_group name of
        Some n \<Rightarrow> Inl ValueError
      | None \<Rightarrow> Inr (h_group(name \<mapsto> \<lparr>payload = data, options = kw, attrs = Map.empty\<rparr>)))"

definition attrs_set :: "group \<Rightarrow> string \<Rightarrow> string \<Rightarrow> attr \<Rightarrow> group" where
  "attrs_set h_group d key a =
     (case h_group d of
        None \<Rightarrow> h_group
      | Some n \<Rightarrow> h_group(d \<mapsto> n\<lparr>attrs := (attrs n)(key \<mapsto> a)\<rparr>))"

definition setitem0 :: "group \<Rightarrow> string \<Rightarrow> atom \<Rightarrow> error + group" where
  "setitem0 h_group d x =
     (case h_group d of
        None \<Rightarrow> Inl KeyError
      | Some n \<Rightarrow>
          (case payload n of
             Array (y # ys) \<Rightarrow> Inr (h_group(d \<mapsto> n\<lparr>payload := Array (x # ys)\<rparr>))
           | Array [] \<Rightarrow> Inl IndexError
           | Scalar y \<Rightarrow> Inl IndexError))"

text \<open>
  Modelled from the spec: \<^verbatim>\<open>get_type_and_data\<close> is imported from \<^verbatim>\<open>hickle.helpers\<close>, which
  is not among the sources. It is the specification's shared node-read helper: it reads
  the node's \<^verbatim>\<open>type\<close> attribute, "stored as a length-1 sequence of bytes", takes its first
  element as the tag, and returns the tag with the node's payload. A node without the
  attribute, or with an empty one, cannot be read.
\<close>

definition get_type_and_data :: "node \<Rightarrow> error + (atom \<times> payload)" where
  "get_type_and_data h_node =
     (case attrs h_node ''type'' of
        None \<Rightarrow> Inl KeyError
      | Some (AttrList []) \<Rightarrow> Inl IndexError
      | Some (AttrList (t # ts)) \<Rightarrow> Inr (ABytes t, payload h_node)
      | Some (AttrBytes []) \<Rightarrow> Inl IndexError
      | Some (AttrBytes (ch # s)) \<Rightarrow> Inr (AInt (of_char ch), payload h_node))"

section \<open>Dumpers\<close>

type_synonym dumper = "pyval \<Rightarrow> group \<Rightarrow> int \<Rightarrow> kwargs \<Rightarrow> error + group"

text \<open>
  \<^verbatim>\<open>list(py_obj)\<close> is handed to the store as the data of one dataset. Turning the list into
  an array of one element type is the store's work and is idealised (see the store above):
  the array holds the elements as they are.
\<close>

definition create_listlike_dataset :: dumper where
  "create_listlike_dataset py_obj h_group call_id kw =
     (let dtype = str_type (type_py py_obj) in
      case py_list py_obj of
        Inl e \<Rightarrow> Inl e
      | Inr obj \<Rightarrow>
          (case create_dataset h_group (dataset_name call_id) (Array obj) kw of
             Inl e \<Rightarrow> Inl e
           | Inr g \<Rightarrow> Inr (attrs_set g (dataset_name call_id) ''type'' (AttrList [dtype]))))"

text \<open>
  \<^verbatim>\<open>create_dataset(name, data=py_obj, dtype=type(py_obj))\<close>: the \<^verbatim>\<open>**kwargs\<close> of the call are
  commented out in the source, so the dataset is created with no options. The class of
  the object is passed as the \<^verbatim>\<open>dtype\<close>: the store takes the four numeric classes, raises
  \<^verbatim>\<open>ValueError\<close> for \<^verbatim>\<open>bytes\<close> and \<^verbatim>\<open>str\<close>, and \<^verbatim>\<open>TypeError\<close> for a class that is no scalar
  type at all. The width of the store's integers is not modelled (see the store above).
\<close>

definition create_python_dtype_dataset :: dumper where
  "create_python_dtype_dataset py_obj h_group call_id kw =
     (case py_obj of
        Atom a \<Rightarrow>
          if type_of_atom a \<in> {T_bytes, T_str} then Inl ValueError
          else
            (case create_dataset h_group (dataset_name call_id) (Scalar a) [] of
               Inl e \<Rightarrow> Inl e
             | Inr g \<Rightarrow>
                 Inr (attrs_set
                       (attrs_set g (dataset_name call_id) ''type'' (AttrList [''python_dtype'']))
                       (dataset_name call_id) ''python_subdtype''
                       (AttrBytes (str_type (type_py py_obj)))))
      | _ \<Rightarrow> Inl TypeError)"

text \<open>
  The two branches are \<^verbatim>\<open>isinstance(py_obj, bytes)\<close> and \<^verbatim>\<open>isinstance(py_obj, str)\<close>; there
  is no \<^verbatim>\<open>else\<close>. The text branch creates a dataset of shape \<^verbatim>\<open>(1,)\<close>, whose slot holds the
  empty string, and then assigns slot 0.
\<close>

definition create_stringlike_dataset :: dumper where
  "create_stringlike_dataset py_obj h_group call_id kw =
     (case py_obj of
        Atom (ABytes s) \<Rightarrow>
          (case create_dataset h_group (dataset_name call_id) (Array [ABytes s]) kw of
             Inl e \<Rightarrow> Inl e
           | Inr g \<Rightarrow> Inr (attrs_set g (dataset_name call_id) ''type'' (AttrList [''bytes''])))
      | Atom (AStr s) \<Rightarrow>
          (case create_dataset h_group (dataset_name call_id) (Array [AStr []]) kw of
             Inl e \<Rightarrow> Inl e
           | Inr g \<Rightarrow>
               (case setitem0 g (dataset_name call_id) (AStr s) of
                  Inl e \<Rightarrow> Inl e
                | Inr g' \<Rightarrow>
                    Inr (attrs_set g' (dataset_name call_id) ''type'' (AttrList [''string'']))))
      | _ \<Rightarrow> Inr h_group)"

definition create_none_dataset :: dumper where
  "create_none_dataset py_obj h_group call_id kw =
     (case create_dataset h_group (dataset_name call_id) (Array [AInt 0]) kw of
        Inl e \<Rightarrow> Inl e
      | Inr g \<Rightarrow> Inr (attrs_set g (dataset_name call_id) ''type'' (AttrList [''none''])))"

section \<open>Loaders\<close>

type_synonym loader = "node \<Rightarrow> error + pyval"

definition load_list_dataset :: loader where
  "load_list_dataset h_node =
     (case get_type_and_data h_node of
        Inl e \<Rightarrow> Inl e
      | Inr (py_type, data) \<Rightarrow>
          (case py_iter data of Inl e \<Rightarrow> Inl e | Inr xs \<Rightarrow> Inr (PyList xs)))"

definition load_tuple_dataset :: loader where
  "load_tuple_dataset h_node =
     (case get_type_and_data h_node of
        Inl e \<Rightarrow> Inl e
      | Inr (py_type, data) \<Rightarrow>
          (case py_iter data of Inl e \<Rightarrow> Inl e | Inr xs \<Rightarrow> Inr (PyTuple xs)))"

text \<open>
  \<^verbatim>\<open>set(data)\<close> keeps one copy of every element. Elements are compared here as stored
  scalars; Python's \<^verbatim>\<open>==\<close> differs from that on floats only (0.0 and -0.0 are equal, a NaN
  is not equal to itself).
\<close>

definition load_set_dataset :: loader where
  "load_set_dataset h_node =
     (case get_type_and_data h_node of
        Inl e \<Rightarrow> Inl e
      | Inr (py_type, data) \<Rightarrow>
          (case py_iter data of Inl e \<Rightarrow> Inl e | Inr xs \<Rightarrow> Inr (PySet (remdups xs))))"

definition load_bytes_dataset :: "coerce \<Rightarrow> loader" where
  "load_bytes_dataset c h_node =
     (case get_type_and_data h_node of
        Inl e \<Rightarrow> Inl e
      | Inr (py_type, data) \<Rightarrow>
          (case getitem0 data of Inl e \<Rightarrow> Inl e | Inr x \<Rightarrow> construct c T_bytes (Scalar x)))"

definition load_string_dataset :: "coerce \<Rightarrow> loader" where
  "load_string_dataset c h_node =
     (case get_type_and_data h_node of
        Inl e \<Rightarrow> Inl e
      | Inr (py_type, data) \<Rightarrow>
          (case getitem0 data of Inl e \<Rightarrow> Inl e | Inr x \<Rightarrow> construct c T_str (Scalar x)))"

text \<open>\<^verbatim>\<open>unicode\<close> is not a name of Python 3: the call raises before its argument is read.\<close>

definition load_unicode_dataset :: loader where
  "load_unicode_dataset h_node =
     (case get_type_and_data h_node of
        Inl e \<Rightarrow> Inl e
      | Inr (py_type, data) \<Rightarrow> Inl NameError)"

definition load_none_dataset :: loader where
  "load_none_dataset h_node = Inr PyNone"

text \<open>The local table of \<^verbatim>\<open>load_python_dtype_dataset\<close>, keyed by the stored subtype tag.\<close>

definition type_dict :: "string \<rightharpoonup> pytype" where
  "type_dict =
     map_of
      [(''<class 'int'>'', T_int),
       (''<class 'float'>'', T_float),
       (''<class 'bool'>'', T_bool),
       (''<class 'complex'>'', T_complex)]"

text \<open>
  \<^verbatim>\<open>type_dict.get(subtype)\<close>: \<^verbatim>\<open>None\<close> for a key that is not in the table; an attribute that
  is a sequence is not hashable and cannot be looked up at all.
\<close>

definition type_dict_get :: "attr \<Rightarrow> error + pytype option" where
  "type_dict_get subtype =
     (case subtype of
        AttrBytes s \<Rightarrow> Inr (type_dict s)
      | AttrList ss \<Rightarrow> Inl TypeError)"

text \<open>\<^verbatim>\<open>tcast(data)\<close> with \<^verbatim>\<open>tcast = None\<close> raises \<^verbatim>\<open>TypeError\<close>: \<^verbatim>\<open>None\<close> is not callable.\<close>

definition load_python_dtype_dataset :: "coerce \<Rightarrow> loader" where
  "load_python_dtype_dataset c h_node =
     (case get_type_and_data h_node of
        Inl e \<Rightarrow> Inl e
      | Inr (py_type, data) \<Rightarrow>
          (case attrs h_node ''python_subdtype'' of
             None \<Rightarrow> Inl KeyError
           | Some subtype \<Rightarrow>
               (case type_dict_get subtype of
                  Inl e \<Rightarrow> Inl e
                | Inr None \<Rightarrow> Inl TypeError
                | Inr (Some tcast) \<Rightarrow> construct c tcast data)))"

section \<open>The registries and the dispatchers\<close>

definition types_dict :: "pytype \<rightharpoonup> dumper" where
  "types_dict =
     map_of
      [(T_list, create_listlike_dataset),
       (T_tuple, create_listlike_dataset),
       (T_set, create_listlike_dataset),
       (T_bytes, create_stringlike_dataset),
       (T_str, create_stringlike_dataset),
       (T_int, create_python_dtype_dataset),
       (T_float, create_python_dtype_dataset),
       (T_bool, create_python_dtype_dataset),
       (T_complex, create_python_dtype_dataset),
       (T_NoneType, create_none_dataset)]"

definition hkl_types_dict :: "coerce \<Rightarrow> string \<rightharpoonup> loader" where
  "hkl_types_dict c =
     map_of
      [(''<class 'list'>'', load_list_dataset),
       (''<class 'tuple'>'', load_tuple_dataset),
       (''<class 'set'>'', load_set_dataset),
       (''bytes'', load_bytes_dataset c),
       (''python_dtype'', load_python_dtype_dataset c),
       (''string'', load_string_dataset c),
       (''none'', load_none_dataset)]"

text \<open>
  Modelled from the spec: the two dispatchers live in \<^verbatim>\<open>hickle.py\<close>, which is not among
  the sources. Encoder Dispatch: "Determine value's kind. Fail with UnsupportedTypeError
  if no encoder is registered for that kind", the registry being "consulted by exact kind
  match". Decoder Dispatch: "Read the type attribute. Fail with UnknownTagError if the
  tag is not registered", then apply the registered inverse function to the node.
\<close>

definition encode :: dumper where
  "encode py_obj h_group call_id kw =
     (case types_dict (type_py py_obj) of
        None \<Rightarrow> Inl UnsupportedTypeError
      | Some create \<Rightarrow> create py_obj h_group call_id kw)"

definition decode :: "coerce \<Rightarrow> loader" where
  "decode c h_node =
     (case get_type_and_data h_node of
        Inl e \<Rightarrow> Inl e
      | Inr (py_type, data) \<Rightarrow>
          (case py_type of
             ABytes tag \<Rightarrow>
               (case hkl_types_dict c tag of
                  None \<Rightarrow> Inl UnknownTagError
                | Some load \<Rightarrow> load h_node)
           | _ \<Rightarrow> Inl UnknownTagError))"

text \<open>The node a dumper leaves at position \<open>call_id\<close> of the group it returns.\<close>

definition node_at :: "error + group \<Rightarrow> int \<Rightarrow> node option" where
  "node_at r call_id = (case r of Inl e \<Rightarrow> None | Inr g \<Rightarrow> g (dataset_name call_id))"

text \<open>
  Equality of a loaded value with the dumped one: the same kind and the same contents,
  where two sets are equal when they have the same elements.
\<close>

fun py_equal :: "pyval \<Rightarrow> pyval \<Rightarrow> bool" where
  "py_equal (PySet xs) (PySet ys) = (set xs = set ys)"
| "py_equal v w = (v = w)"

section \<open>Representative values\<close>






section \<open>Basic facts about the store, the dumpers and the registries\<close>

lemma str_type_simps:
  "str_type T_list = ''<class 'list'>''"
  "str_type T_tuple = ''<class 'tuple'>''"
  "str_type T_set = ''<class 'set'>''"
  "str_type T_bytes = ''<class 'bytes'>''"
  "str_type T_str = ''<class 'str'>''"
  "str_type T_int = ''<class 'int'>''"
  "str_type T_float = ''<class 'float'>''"
  "str_type T_bool = ''<class 'bool'>''"
  "str_type T_complex = ''<class 'complex'>''"
  "str_type T_NoneType = ''<class 'NoneType'>''"
  "str_type T_bytearray = ''<class 'bytearray'>''"
  by (simp_all add: str_type_def)

lemma create_dataset_fresh:
  "h_group name = None \<Longrightarrow>
   create_dataset h_group name data kw =
     Inr (h_group(name \<mapsto> \<lparr>payload = data, options = kw, attrs = Map.empty\<rparr>))"
  by (simp add: create_dataset_def)

lemma create_dataset_taken:
  "h_group name = Some n \<Longrightarrow> create_dataset h_group name data kw = Inl ValueError"
  by (simp add: create_dataset_def)

lemma attrs_set_upd:
  "attrs_set (g(d \<mapsto> n)) d key a = g(d \<mapsto> n\<lparr>attrs := (attrs n)(key \<mapsto> a)\<rparr>)"
  by (simp add: attrs_set_def)

lemma setitem0_upd:
  "payload n = Array (y # ys) \<Longrightarrow>
   setitem0 (g(d \<mapsto> n)) d x = Inr (g(d \<mapsto> n\<lparr>payload := Array (x # ys)\<rparr>))"
  by (simp add: setitem0_def)

lemma listlike_node:
  assumes "h_group (dataset_name call_id) = None" and "py_list py_obj = Inr xs"
  shows "node_at (create_listlike_dataset py_obj h_group call_id kw) call_id =
           Some \<lparr>payload = Array xs, options = kw,
                 attrs = [''type'' \<mapsto> AttrList [str_type (type_py py_obj)]]\<rparr>"
  using assms
  by (simp add: create_listlike_dataset_def create_dataset_fresh attrs_set_upd node_at_def)

lemma python_dtype_node:
  assumes "h_group (dataset_name call_id) = None"
    and "type_of_atom a \<in> {T_int, T_float, T_bool, T_complex}"
  shows "node_at (create_python_dtype_dataset (Atom a) h_group call_id kw) call_id =
           Some \<lparr>payload = Scalar a, options = [],
                 attrs = [''type'' \<mapsto> AttrList [''python_dtype''],
                          ''python_subdtype'' \<mapsto> AttrBytes (str_type (type_of_atom a))]\<rparr>"
  using assms
  by (auto simp add: create_python_dtype_dataset_def create_dataset_fresh attrs_set_upd
      node_at_def)

lemma bytes_node:
  assumes "h_group (dataset_name call_id) = None"
  shows "node_at (create_stringlike_dataset (Atom (ABytes s)) h_group call_id kw) call_id =
           Some \<lparr>payload = Array [ABytes s], options = kw,
                 attrs = [''type'' \<mapsto> AttrList [''bytes'']]\<rparr>"
  using assms
  by (simp add: create_stringlike_dataset_def create_dataset_fresh attrs_set_upd node_at_def)

lemma string_node:
  assumes "h_group (dataset_name call_id) = None"
  shows "node_at (create_stringlike_dataset (Atom (AStr s)) h_group call_id kw) call_id =
           Some \<lparr>payload = Array [AStr s], options = kw,
                 attrs = [''type'' \<mapsto> AttrList [''string'']]\<rparr>"
  using assms
  by (simp add: create_stringlike_dataset_def create_dataset_fresh attrs_set_upd
      setitem0_upd node_at_def)

lemma none_node:
  assumes "h_group (dataset_name call_id) = None"
  shows "node_at (create_none_dataset py_obj h_group call_id kw) call_id =
           Some \<lparr>payload = Array [AInt 0], options = kw,
                 attrs = [''type'' \<mapsto> AttrList [''none'']]\<rparr>"
  using assms
  by (simp add: create_none_dataset_def create_dataset_fresh attrs_set_upd node_at_def)

lemma get_type_and_data_tag:
  "attrs h_node ''type'' = Some (AttrList (tag # ts)) \<Longrightarrow>
   get_type_and_data h_node = Inr (ABytes tag, payload h_node)"
  by (simp add: get_type_and_data_def)

lemma decode_tag:
  "attrs h_node ''type'' = Some (AttrList (tag # ts)) \<Longrightarrow>
   decode c h_node =
     (case hkl_types_dict c tag of None \<Rightarrow> Inl UnknownTagError | Some load \<Rightarrow> load h_node)"
  by (simp add: decode_def get_type_and_data_tag)

lemma hkl_types_dict_simps:
  "hkl_types_dict c ''<class 'list'>'' = Some load_list_dataset"
  "hkl_types_dict c ''<class 'tuple'>'' = Some load_tuple_dataset"
  "hkl_types_dict c ''<class 'set'>'' = Some load_set_dataset"
  "hkl_types_dict c ''bytes'' = Some (load_bytes_dataset c)"
  "hkl_types_dict c ''python_dtype'' = Some (load_python_dtype_dataset c)"
  "hkl_types_dict c ''string'' = Some (load_string_dataset c)"
  "hkl_types_dict c ''none'' = Some load_none_dataset"
  by (simp_all add: hkl_types_dict_def)

lemma types_dict_simps:
  "types_dict T_list = Some create_listlike_dataset"
  "types_dict T_tuple = Some create_listlike_dataset"
  "types_dict T_set = Some create_listlike_dataset"
  "types_dict T_bytes = Some create_stringlike_dataset"
  "types_dict T_str = Some create_stringlike_dataset"
  "types_dict T_int = Some create_python_dtype_dataset"
  "types_dict T_float = Some create_python_dtype_dataset"
  "types_dict T_bool = Some create_python_dtype_dataset"
  "types_dict T_complex = Some create_python_dtype_dataset"
  "types_dict T_NoneType = Some create_none_dataset"
  "types_dict T_bytearray = None"
  by (simp_all add: types_dict_def)

lemma type_dict_simps:
  "type_dict ''<class 'int'>'' = Some T_int"
  "type_dict ''<class 'float'>'' = Some T_float"
  "type_dict ''<class 'bool'>'' = Some T_bool"
  "type_dict ''<class 'complex'>'' = Some T_complex"
  by (simp_all add: type_dict_def)

lemma type_dict_other:
  "s \<notin> {''<class 'int'>'', ''<class 'float'>'', ''<class 'bool'>'', ''<class 'complex'>''} \<Longrightarrow>
   type_dict s = None"
  by (simp add: type_dict_def)

lemma dataset_name_0: "dataset_name 0 = ''data_0''"
  by code_simp

section \<open>Basic facts about the loaders\<close>

lemma load_list_array:
  "attrs h_node ''type'' = Some (AttrList (tag # ts)) \<Longrightarrow> payload h_node = Array xs \<Longrightarrow>
   load_list_dataset h_node = Inr (PyList xs)"
  by (simp add: load_list_dataset_def get_type_and_data_tag)

lemma load_tuple_array:
  "attrs h_node ''type'' = Some (AttrList (tag # ts)) \<Longrightarrow> payload h_node = Array xs \<Longrightarrow>
   load_tuple_dataset h_node = Inr (PyTuple xs)"
  by (simp add: load_tuple_dataset_def get_type_and_data_tag)

lemma load_set_array:
  "attrs h_node ''type'' = Some (AttrList (tag # ts)) \<Longrightarrow> payload h_node = Array xs \<Longrightarrow>
   load_set_dataset h_node = Inr (PySet (remdups xs))"
  by (simp add: load_set_dataset_def get_type_and_data_tag)

lemma construct_same: "construct c (type_of_atom a) (Scalar a) = Inr (Atom a)"
  by (cases a) simp_all

text \<open>Whatever the payload, a call that returns yields an object of the class called.\<close>

lemma construct_kind:
  assumes "construct c t data = Inr w"
    and "t \<in> {T_int, T_float, T_bool, T_complex, T_bytes, T_str}"
  shows "type_py w = t"
  using assms
  by (induction c t data rule: construct.induct) (auto split: sum.splits)

lemma load_bytes_first:
  "attrs h_node ''type'' = Some (AttrList (tag # ts)) \<Longrightarrow>
   payload h_node = Array (ABytes s # xs) \<Longrightarrow>
   load_bytes_dataset c h_node = Inr (Atom (ABytes s))"
  by (simp add: load_bytes_dataset_def get_type_and_data_tag)

lemma load_string_first:
  "attrs h_node ''type'' = Some (AttrList (tag # ts)) \<Longrightarrow>
   payload h_node = Array (AStr s # xs) \<Longrightarrow>
   load_string_dataset c h_node = Inr (Atom (AStr s))"
  by (simp add: load_string_dataset_def get_type_and_data_tag)

lemma load_bytes_empty:
  "attrs h_node ''type'' = Some (AttrList (tag # ts)) \<Longrightarrow> payload h_node = Array [] \<Longrightarrow>
   load_bytes_dataset c h_node = Inl IndexError"
  by (simp add: load_bytes_dataset_def get_type_and_data_tag)

lemma load_string_empty:
  "attrs h_node ''type'' = Some (AttrList (tag # ts)) \<Longrightarrow> payload h_node = Array [] \<Longrightarrow>
   load_string_dataset c h_node = Inl IndexError"
  by (simp add: load_string_dataset_def get_type_and_data_tag)

lemma numeric_subdtype:
  "t \<in> {T_int, T_float, T_bool, T_complex} \<Longrightarrow> type_dict (str_type t) = Some t"
  by (auto simp add: type_dict_def str_type_simps)

lemma load_python_dtype_known:
  "attrs h_node ''type'' = Some (AttrList (tag # ts)) \<Longrightarrow>
   attrs h_node ''python_subdtype'' = Some (AttrBytes (str_type t)) \<Longrightarrow>
   t \<in> {T_int, T_float, T_bool, T_complex} \<Longrightarrow>
   load_python_dtype_dataset c h_node = construct c t (payload h_node)"
  by (simp add: load_python_dtype_dataset_def get_type_and_data_tag type_dict_get_def
      numeric_subdtype)

lemma load_python_dtype_unknown:
  "attrs h_node ''type'' = Some (AttrList (tag # ts)) \<Longrightarrow>
   attrs h_node ''python_subdtype'' = Some sub \<Longrightarrow>
   sub \<notin> AttrBytes ` dom type_dict \<Longrightarrow>
   load_python_dtype_dataset c h_node = Inl TypeError"
  by (cases sub)
     (auto simp add: load_python_dtype_dataset_def get_type_and_data_tag type_dict_get_def
        split: option.splits)

lemma load_python_dtype_absent:
  "attrs h_node ''type'' = Some (AttrList (tag # ts)) \<Longrightarrow>
   attrs h_node ''python_subdtype'' = None \<Longrightarrow>
   load_python_dtype_dataset c h_node = Inl KeyError"
  by (simp add: load_python_dtype_dataset_def get_type_and_data_tag)

lemma dom_type_dict:
  "dom type_dict =
     {''<class 'int'>'', ''<class 'float'>'', ''<class 'bool'>'', ''<class 'complex'>''}"
  by (auto simp add: type_dict_def split: if_splits)

lemma dom_hkl_types_dict:
  "dom (hkl_types_dict c) =
     {''<class 'list'>'', ''<class 'tuple'>'', ''<class 'set'>'', ''bytes'', ''python_dtype'',
      ''string'', ''none''}"
  by (auto simp add: hkl_types_dict_def split: if_splits)


lemma encode_registered:
  "types_dict (type_py v) = Some create \<Longrightarrow> encode v h_group call_id kw = create v h_group call_id kw"
  by (simp add: encode_def)

section \<open>Decoding a node by its tag\<close>

text \<open>The dispatcher hands a node to the loader registered under the node's tag.\<close>

lemma decode_list_tag:
  "attrs h_node ''type'' = Some (AttrList (''<class 'list'>'' # ts)) \<Longrightarrow>
   decode c h_node = load_list_dataset h_node"
  by (simp add: decode_tag hkl_types_dict_simps)

lemma decode_tuple_tag:
  "attrs h_node ''type'' = Some (AttrList (''<class 'tuple'>'' # ts)) \<Longrightarrow>
   decode c h_node = load_tuple_dataset h_node"
  by (simp add: decode_tag hkl_types_dict_simps)

lemma decode_set_tag:
  "attrs h_node ''type'' = Some (AttrList (''<class 'set'>'' # ts)) \<Longrightarrow>
   decode c h_node = load_set_dataset h_node"
  by (simp add: decode_tag hkl_types_dict_simps)

lemma decode_bytes_tag:
  "attrs h_node ''type'' = Some (AttrList (''bytes'' # ts)) \<Longrightarrow>
   decode c h_node = load_bytes_dataset c h_node"
  by (simp add: decode_tag hkl_types_dict_simps)

lemma decode_string_tag:
  "attrs h_node ''type'' = Some (AttrList (''string'' # ts)) \<Longrightarrow>
   decode c h_node = load_string_dataset c h_node"
  by (simp add: decode_tag hkl_types_dict_simps)

lemma decode_none_tag:
  "attrs h_node ''type'' = Some (AttrList (''none'' # ts)) \<Longrightarrow>
   decode c h_node = load_none_dataset h_node"
  by (simp add: decode_tag hkl_types_dict_simps)

lemma decode_python_dtype_tag:
  "attrs h_node ''type'' = Some (AttrList (''python_dtype'' # ts)) \<Longrightarrow>
   decode c h_node = load_python_dtype_dataset c h_node"
  by (simp add: decode_tag hkl_types_dict_simps)

section \<open>Dumping a value and loading it back\<close>

lemma encode_numeric:
  "type_of_atom a \<in> {T_int, T_float, T_bool, T_complex} \<Longrightarrow>
   encode (Atom a) h_group call_id kw = create_python_dtype_dataset (Atom a) h_group call_id kw"
  by (auto simp add: encode_def types_dict_simps)

lemma encode_none:
  "encode PyNone h_group call_id kw = create_none_dataset PyNone h_group call_id kw"
  by (simp add: encode_def types_dict_simps)

lemma encode_stringlike:
  "encode (Atom (ABytes s)) h_group call_id kw =
     create_stringlike_dataset (Atom (ABytes s)) h_group call_id kw"
  "encode (Atom (AStr s)) h_group call_id kw =
     create_stringlike_dataset (Atom (AStr s)) h_group call_id kw"
  by (simp_all add: encode_def types_dict_simps)

lemma python_dtype_ignores_kwargs:
  "create_python_dtype_dataset py_obj h_group call_id kw =
   create_python_dtype_dataset py_obj h_group call_id []"
  by (simp add: create_python_dtype_dataset_def)

lemma load_numeric_node:
  assumes "type_of_atom a \<in> {T_int, T_float, T_bool, T_complex}"
  shows "load_python_dtype_dataset c
           \<lparr>payload = Scalar a, options = opts,
            attrs = [''type'' \<mapsto> AttrList [''python_dtype''],
                     ''python_subdtype'' \<mapsto> AttrBytes (str_type (type_of_atom a))]\<rparr> =
         Inr (Atom a)"
proof -
  let ?n = "\<lparr>payload = Scalar a, options = opts,
      attrs = [''type'' \<mapsto> AttrList [''python_dtype''],
               ''python_subdtype'' \<mapsto> AttrBytes (str_type (type_of_atom a))]\<rparr>"
  have "load_python_dtype_dataset c ?n = construct c (type_of_atom a) (payload ?n)"
    using assms by (intro load_python_dtype_known) simp_all
  then show ?thesis
    by (simp add: construct_same)
qed

text \<open>
  The registered dumper of a value's kind, run at a free position, leaves a node whose tag
  has a registered loader, and that loader returns the value.
\<close>

lemma dump_then_load:
  assumes "types_dict (type_py v) = Some create"
    and "h_group (dataset_name call_id) = None"
  shows "\<exists>n tag load w. node_at (create v h_group call_id kw) call_id = Some n \<and>
           attrs n ''type'' = Some (AttrList [tag]) \<and>
           hkl_types_dict c tag = Some load \<and>
           load n = Inr w \<and> py_equal w v \<and> type_py w = type_py v"
proof (cases v)
  case (Atom a)
  show ?thesis
  proof (cases "type_of_atom a \<in> {T_int, T_float, T_bool, T_complex}")
    case True
    then have "create = create_python_dtype_dataset"
      using assms(1) Atom by (auto simp add: types_dict_simps)
    with True assms(2) Atom show ?thesis
      by (simp add: python_dtype_node hkl_types_dict_simps load_numeric_node)
  next
    case False
    then consider s where "a = ABytes s" | s where "a = AStr s"
      by (cases a) simp_all
    then show ?thesis
    proof cases
      case 1
      with assms Atom show ?thesis
        by (simp add: types_dict_simps bytes_node hkl_types_dict_simps load_bytes_first)
    next
      case 2
      with assms Atom show ?thesis
        by (simp add: types_dict_simps string_node hkl_types_dict_simps load_string_first)
    qed
  qed
next
  case (PyList xs)
  with assms show ?thesis
    by (simp add: types_dict_simps listlike_node str_type_simps hkl_types_dict_simps
        load_list_array)
next
  case (PyTuple xs)
  with assms show ?thesis
    by (simp add: types_dict_simps listlike_node str_type_simps hkl_types_dict_simps
        load_tuple_array)
next
  case (PySet xs)
  with assms show ?thesis
    by (simp add: types_dict_simps listlike_node str_type_simps hkl_types_dict_simps
        load_set_array)
next
  case PyNone
  with assms show ?thesis
    by (simp add: types_dict_simps none_node hkl_types_dict_simps load_none_dataset_def)
next
  case (PyByteArray s)
  with assms(1) show ?thesis
    by (simp add: types_dict_simps)
qed

section \<open>The claims\<close>



text \<open>
  C2. Tag completeness. The keys of the decoder registry are exactly the seven tags
  \<^verbatim>\<open><class 'list'>\<close>, \<^verbatim>\<open><class 'tuple'>\<close>, \<^verbatim>\<open><class 'set'>\<close>, \<^verbatim>\<open>bytes\<close>, \<^verbatim>\<open>python_dtype\<close>,
  \<^verbatim>\<open>string\<close>, \<^verbatim>\<open>none\<close>. For every value whose kind has a registered dumper, that dumper
  (run at a free position) leaves a node whose \<^verbatim>\<open>type\<close> attribute is a one-element
  sequence holding one of these keys, so decoding the node finds a loader: what decoding
  returns is what that loader returns, never the failed tag lookup.
\<close>

theorem tag_completeness:
  assumes "types_dict (type_py v) = Some create"
    and "h_group (dataset_name call_id) = None"
  shows "dom (hkl_types_dict c) =
           {''<class 'list'>'', ''<class 'tuple'>'', ''<class 'set'>'', ''bytes'', ''python_dtype'',
            ''string'', ''none''} \<and>
         (\<exists>n tag load. node_at (create v h_group call_id kw) call_id = Some n \<and>
            attrs n ''type'' = Some (AttrList [tag]) \<and>
            tag \<in> dom (hkl_types_dict c) \<and>
            hkl_types_dict c tag = Some load \<and>
            decode c n = load n \<and> decode c n \<noteq> Inl UnknownTagError)"
proof -
  from assms
    dump_then_load [where v = v and create = create and h_group = h_group
      and call_id = call_id and kw = kw and c = c]
  obtain n tag load w where n: "node_at (create v h_group call_id kw) call_id = Some n"
    and tag: "attrs n ''type'' = Some (AttrList [tag])"
    and load: "hkl_types_dict c tag = Some load"
    and w: "load n = Inr w"
    by blast
  from tag load have dec: "decode c n = load n"
    by (simp add: decode_tag)
  with w have ok: "decode c n \<noteq> Inl UnknownTagError"
    by simp
  from load have mem: "tag \<in> dom (hkl_types_dict c)"
    by blast
  from n tag mem load dec ok
  have "\<exists>n tag load. node_at (create v h_group call_id kw) call_id = Some n \<and>
            attrs n ''type'' = Some (AttrList [tag]) \<and>
            tag \<in> dom (hkl_types_dict c) \<and>
            hkl_types_dict c tag = Some load \<and>
            decode c n = load n \<and> decode c n \<noteq> Inl UnknownTagError"
    by blast
  with dom_hkl_types_dict [of c] show ?thesis
    by (rule_tac conjI)
qed

theorem tag_completeness_witness:
  "types_dict (type_py (PySet [AInt 2, AInt 1])) = Some create_listlike_dataset \<and>
   (Map.empty :: group) (dataset_name 0) = None \<and>
   (\<exists>n tag load.
      node_at (create_listlike_dataset (PySet [AInt 2, AInt 1]) Map.empty 0 []) 0 = Some n \<and>
      attrs n ''type'' = Some (AttrList [tag]) \<and>
      tag \<in> dom (hkl_types_dict no_coerce) \<and>
      hkl_types_dict no_coerce tag = Some load \<and>
      decode no_coerce n = load n \<and> decode no_coerce n \<noteq> Inl UnknownTagError)"
proof -
  have kind: "types_dict (type_py (PySet [AInt 2, AInt 1])) = Some create_listlike_dataset"
    by (simp add: types_dict_simps)
  have free: "(Map.empty :: group) (dataset_name 0) = None"
    by simp
  from kind free
    tag_completeness [of "PySet [AInt 2, AInt 1]" create_listlike_dataset Map.empty 0 no_coerce "[]",
      OF kind free]
  show ?thesis by blast
qed

text \<open>
  C3, as stated, fails: a \<^verbatim>\<open>python_dtype\<close> node whose \<^verbatim>\<open>python_subdtype\<close> is
  \<^verbatim>\<open><class 'str'>\<close> does fail to decode, but with Python's \<^verbatim>\<open>TypeError\<close>
  (\<^verbatim>\<open>type_dict.get\<close> returns \<^verbatim>\<open>None\<close>, and calling \<^verbatim>\<open>None\<close> raises), not with an
  \<^verbatim>\<open>UnknownSubtypeError\<close>.
\<close>

theorem unknown_subtype_counterexample:
  "load_python_dtype_dataset no_coerce
     \<lparr>payload = Scalar (AInt 1), options = [],
      attrs = [''type'' \<mapsto> AttrList [''python_dtype''],
               ''python_subdtype'' \<mapsto> AttrBytes ''<class 'str'>'']\<rparr> = Inl TypeError \<and>
   load_python_dtype_dataset no_coerce
     \<lparr>payload = Scalar (AInt 1), options = [],
      attrs = [''type'' \<mapsto> AttrList [''python_dtype''],
               ''python_subdtype'' \<mapsto> AttrBytes ''<class 'str'>'']\<rparr> \<noteq> Inl UnknownSubtypeError \<and>
   decode no_coerce
     \<lparr>payload = Scalar (AInt 1), options = [],
      attrs = [''type'' \<mapsto> AttrList [''python_dtype''],
               ''python_subdtype'' \<mapsto> AttrBytes ''<class 'str'>'']\<rparr> \<noteq> Inl UnknownSubtypeError"
proof -
  let ?n = "\<lparr>payload = Scalar (AInt 1), options = [],
      attrs = [''type'' \<mapsto> AttrList [''python_dtype''],
               ''python_subdtype'' \<mapsto> AttrBytes ''<class 'str'>'']\<rparr>"
  have "AttrBytes ''<class 'str'>'' \<notin> AttrBytes ` dom type_dict"
    by (simp add: dom_type_dict image_iff)
  then have "load_python_dtype_dataset no_coerce ?n = Inl TypeError"
    by (simp add: load_python_dtype_unknown)
  moreover have "decode no_coerce ?n = load_python_dtype_dataset no_coerce ?n"
    by (simp add: decode_python_dtype_tag)
  ultimately show ?thesis by simp
qed

text \<open>
  C3, amended. For every node whose type tag is \<^verbatim>\<open>python_dtype\<close> and whose
  \<^verbatim>\<open>python_subdtype\<close> attribute is not one of the four recognised tags, decoding fails and
  returns no value. The failure is a Python exception of the loader, not a dedicated
  error: \<^verbatim>\<open>KeyError\<close> when the node has no such attribute, \<^verbatim>\<open>TypeError\<close> when it has one
  that is not in the table.
\<close>

theorem unknown_subtype_fails:
  assumes "attrs h_node ''type'' = Some (AttrList [''python_dtype''])"
    and "attrs h_node ''python_subdtype'' \<notin>
           {Some (AttrBytes ''<class 'int'>''), Some (AttrBytes ''<class 'float'>''),
            Some (AttrBytes ''<class 'bool'>''), Some (AttrBytes ''<class 'complex'>'')}"
  shows "load_python_dtype_dataset c h_node =
           Inl (if attrs h_node ''python_subdtype'' = None then KeyError else TypeError) \<and>
         decode c h_node = load_python_dtype_dataset c h_node"
proof (cases "attrs h_node ''python_subdtype''")
  case None
  with assms(1) show ?thesis
    by (simp add: load_python_dtype_absent decode_python_dtype_tag)
next
  case (Some sub)
  with assms(2) have "sub \<notin> AttrBytes ` dom type_dict"
    by (auto simp add: dom_type_dict)
  with assms(1) Some show ?thesis
    by (simp add: load_python_dtype_unknown decode_python_dtype_tag)
qed

theorem unknown_subtype_fails_witness:
  "attrs \<lparr>payload = Scalar (AInt 1), options = [],
      attrs = [''type'' \<mapsto> AttrList [''python_dtype''],
               ''python_subdtype'' \<mapsto> AttrBytes ''<class 'str'>'']\<rparr> ''type'' =
     Some (AttrList [''python_dtype'']) \<and>
   attrs \<lparr>payload = Scalar (AInt 1), options = [],
      attrs = [''type'' \<mapsto> AttrList [''python_dtype''],
               ''python_subdtype'' \<mapsto> AttrBytes ''<class 'str'>'']\<rparr> ''python_subdtype'' \<notin>
     {Some (AttrBytes ''<class 'int'>''), Some (AttrBytes ''<class 'float'>''),
      Some (AttrBytes ''<class 'bool'>''), Some (AttrBytes ''<class 'complex'>'')} \<and>
   decode no_coerce \<lparr>payload = Scalar (AInt 1), options = [],
      attrs = [''type'' \<mapsto> AttrList [''python_dtype''],
               ''python_subdtype'' \<mapsto> AttrBytes ''<class 'str'>'']\<rparr> = Inl TypeError \<and>
   decode no_coerce \<lparr>payload = Scalar (AInt 1), options = [],
      attrs = [''type'' \<mapsto> AttrList [''python_dtype'']]\<rparr> = Inl KeyError"
  using unknown_subtype_fails [of "\<lparr>payload = Scalar (AInt 1), options = [],
      attrs = [''type'' \<mapsto> AttrList [''python_dtype''],
               ''python_subdtype'' \<mapsto> AttrBytes ''<class 'str'>'']\<rparr>" no_coerce]
    unknown_subtype_fails [of "\<lparr>payload = Scalar (AInt 1), options = [],
      attrs = [''type'' \<mapsto> AttrList [''python_dtype'']]\<rparr>" no_coerce]
  by simp

text \<open>
  C4, as stated, fails on the placeholder path: \<^verbatim>\<open>create_none_dataset\<close> passes its
  \<^verbatim>\<open>**kwargs\<close> on to \<^verbatim>\<open>create_dataset\<close>, so encoding \<^verbatim>\<open>None\<close> with the option
  \<^verbatim>\<open>compression='gzip'\<close> leaves a node that was created with that option, which is not
  the node that encoding \<^verbatim>\<open>None\<close> with no options leaves.
\<close>

theorem placeholder_options_counterexample:
  "node_at (encode PyNone Map.empty 0 [(''compression'', AStr ''gzip'')]) 0 =
     Some \<lparr>payload = Array [AInt 0], options = [(''compression'', AStr ''gzip'')],
           attrs = [''type'' \<mapsto> AttrList [''none'']]\<rparr> \<and>
   node_at (encode PyNone Map.empty 0 []) 0 =
     Some \<lparr>payload = Array [AInt 0], options = [],
           attrs = [''type'' \<mapsto> AttrList [''none'']]\<rparr> \<and>
   node_at (encode PyNone Map.empty 0 [(''compression'', AStr ''gzip'')]) 0 \<noteq>
     node_at (encode PyNone Map.empty 0 []) 0"
  by (simp add: encode_none none_node)

text \<open>
  C4, amended. For every scalar-numeric value (integer, float, boolean, complex), encoding
  with any caller-supplied options gives the same result as encoding with no options, so
  it never fails because of them, and at a free position the node is created with no
  options at all: \<^verbatim>\<open>create_python_dtype_dataset\<close> drops them. On the placeholder path the
  options are not dropped: encoding \<^verbatim>\<open>None\<close> at a free position runs
  \<^verbatim>\<open>create_none_dataset\<close>, which creates the placeholder node with exactly the options the
  caller supplied.
\<close>

theorem options_dropped_on_scalars_only:
  assumes "type_of_atom a \<in> {T_int, T_float, T_bool, T_complex}"
    and "h_group (dataset_name call_id) = None"
  shows "encode (Atom a) h_group call_id kw =
           create_python_dtype_dataset (Atom a) h_group call_id kw \<and>
         encode (Atom a) h_group call_id kw = encode (Atom a) h_group call_id [] \<and>
         (\<exists>n. node_at (encode (Atom a) h_group call_id kw) call_id = Some n \<and>
            payload n = Scalar a \<and> options n = []) \<and>
         encode PyNone h_group call_id kw = create_none_dataset PyNone h_group call_id kw \<and>
         (\<exists>n. node_at (encode PyNone h_group call_id kw) call_id = Some n \<and>
            payload n = Array [AInt 0] \<and> options n = kw)"
proof -
  have enc: "encode (Atom a) h_group call_id kw =
      create_python_dtype_dataset (Atom a) h_group call_id kw" for kw
    using assms(1) by (rule encode_numeric)
  have same: "encode (Atom a) h_group call_id kw = encode (Atom a) h_group call_id []"
    using python_dtype_ignores_kwargs [of "Atom a" h_group call_id kw]
    by (simp add: enc)
  have scalar: "\<exists>n. node_at (encode (Atom a) h_group call_id kw) call_id = Some n \<and>
      payload n = Scalar a \<and> options n = []"
    using assms by (simp add: enc python_dtype_node)
  have none: "\<exists>n. node_at (encode PyNone h_group call_id kw) call_id = Some n \<and>
      payload n = Array [AInt 0] \<and> options n = kw"
    using assms(2) by (simp add: encode_none none_node)
  from enc [of kw] same scalar none encode_none [of h_group call_id kw]
  show ?thesis by blast
qed

theorem options_dropped_on_scalars_only_witness:
  "type_of_atom (AFloat 0x4008000000000000) \<in> {T_int, T_float, T_bool, T_complex} \<and>
   (Map.empty :: group) (dataset_name 0) = None \<and>
   encode (Atom (AFloat 0x4008000000000000)) Map.empty 0 [(''compression'', AStr ''gzip'')] =
     encode (Atom (AFloat 0x4008000000000000)) Map.empty 0 [] \<and>
   (\<exists>n. node_at (encode (Atom (AFloat 0x4008000000000000)) Map.empty 0
             [(''compression'', AStr ''gzip'')]) 0 = Some n \<and>
      payload n = Scalar (AFloat 0x4008000000000000) \<and> options n = []) \<and>
   (\<exists>n. node_at (encode PyNone Map.empty 0 [(''compression'', AStr ''gzip'')]) 0 = Some n \<and>
      payload n = Array [AInt 0] \<and> options n = [(''compression'', AStr ''gzip'')])"
proof -
  have kind: "type_of_atom (AFloat 0x4008000000000000) \<in> {T_int, T_float, T_bool, T_complex}"
    by simp
  have free: "(Map.empty :: group) (dataset_name 0) = None"
    by simp
  from kind free
    options_dropped_on_scalars_only
      [of "AFloat 0x4008000000000000" Map.empty 0 "[(''compression'', AStr ''gzip'')]",
        OF kind free]
  show ?thesis by blast
qed

text \<open>
  C5. One dumper serves the three container kinds and writes the name of the value's own
  class into the type tag: dumped at a free position, a list, a tuple and a set each leave
  a node holding the elements as a flat array in iteration order, tagged
  \<^verbatim>\<open><class 'list'>\<close>, \<^verbatim>\<open><class 'tuple'>\<close> and \<^verbatim>\<open><class 'set'>\<close>. The decoder registry has one
  entry for each of these three pairwise different tags. Any node with an array payload
  decodes, according to its tag, through \<^verbatim>\<open>load_list_dataset\<close> to a list of the payload
  in stored order, through \<^verbatim>\<open>load_tuple_dataset\<close> to a tuple of the payload in stored
  order, or through \<^verbatim>\<open>load_set_dataset\<close> to a set of the payload's elements.
\<close>

theorem container_tags:
  assumes "h_group (dataset_name call_id) = None"
  shows "node_at (create_listlike_dataset (PyList xs) h_group call_id kw) call_id =
           Some \<lparr>payload = Array xs, options = kw,
                 attrs = [''type'' \<mapsto> AttrList [''<class 'list'>'']]\<rparr> \<and>
         node_at (create_listlike_dataset (PyTuple xs) h_group call_id kw) call_id =
           Some \<lparr>payload = Array xs, options = kw,
                 attrs = [''type'' \<mapsto> AttrList [''<class 'tuple'>'']]\<rparr> \<and>
         node_at (create_listlike_dataset (PySet xs) h_group call_id kw) call_id =
           Some \<lparr>payload = Array xs, options = kw,
                 attrs = [''type'' \<mapsto> AttrList [''<class 'set'>'']]\<rparr> \<and>
         hkl_types_dict c ''<class 'list'>'' = Some load_list_dataset \<and>
         hkl_types_dict c ''<class 'tuple'>'' = Some load_tuple_dataset \<and>
         hkl_types_dict c ''<class 'set'>'' = Some load_set_dataset \<and>
         distinct [''<class 'list'>'', ''<class 'tuple'>'', ''<class 'set'>''] \<and>
         load_list_dataset (h_node\<lparr>payload := Array ys,
             attrs := (attrs h_node)(''type'' \<mapsto> AttrList [''<class 'list'>''])\<rparr>) =
           Inr (PyList ys) \<and>
         decode c (h_node\<lparr>payload := Array ys,
             attrs := (attrs h_node)(''type'' \<mapsto> AttrList [''<class 'list'>''])\<rparr>) =
           Inr (PyList ys) \<and>
         load_tuple_dataset (h_node\<lparr>payload := Array ys,
             attrs := (attrs h_node)(''type'' \<mapsto> AttrList [''<class 'tuple'>''])\<rparr>) =
           Inr (PyTuple ys) \<and>
         decode c (h_node\<lparr>payload := Array ys,
             attrs := (attrs h_node)(''type'' \<mapsto> AttrList [''<class 'tuple'>''])\<rparr>) =
           Inr (PyTuple ys) \<and>
         load_set_dataset (h_node\<lparr>payload := Array ys,
             attrs := (attrs h_node)(''type'' \<mapsto> AttrList [''<class 'set'>''])\<rparr>) =
           Inr (PySet (remdups ys)) \<and>
         decode c (h_node\<lparr>payload := Array ys,
             attrs := (attrs h_node)(''type'' \<mapsto> AttrList [''<class 'set'>''])\<rparr>) =
           Inr (PySet (remdups ys))"
proof -
  have "node_at (create_listlike_dataset (PyList xs) h_group call_id kw) call_id =
      Some \<lparr>payload = Array xs, options = kw,
            attrs = [''type'' \<mapsto> AttrList [''<class 'list'>'']]\<rparr>"
    using assms by (simp add: listlike_node str_type_simps)
  moreover have "node_at (create_listlike_dataset (PyTuple xs) h_group call_id kw) call_id =
      Some \<lparr>payload = Array xs, options = kw,
            attrs = [''type'' \<mapsto> AttrList [''<class 'tuple'>'']]\<rparr>"
    using assms by (simp add: listlike_node str_type_simps)
  moreover have "node_at (create_listlike_dataset (PySet xs) h_group call_id kw) call_id =
      Some \<lparr>payload = Array xs, options = kw,
            attrs = [''type'' \<mapsto> AttrList [''<class 'set'>'']]\<rparr>"
    using assms by (simp add: listlike_node str_type_simps)
  moreover have "distinct [''<class 'list'>'', ''<class 'tuple'>'', ''<class 'set'>'']"
    by simp
  moreover have "load_list_dataset (h_node\<lparr>payload := Array ys,
      attrs := (attrs h_node)(''type'' \<mapsto> AttrList [''<class 'list'>''])\<rparr>) = Inr (PyList ys)"
    by (rule load_list_array) simp_all
  moreover have "decode c (h_node\<lparr>payload := Array ys,
      attrs := (attrs h_node)(''type'' \<mapsto> AttrList [''<class 'list'>''])\<rparr>) = Inr (PyList ys)"
    by (simp add: decode_list_tag load_list_array)
  moreover have "load_tuple_dataset (h_node\<lparr>payload := Array ys,
      attrs := (attrs h_node)(''type'' \<mapsto> AttrList [''<class 'tuple'>''])\<rparr>) = Inr (PyTuple ys)"
    by (rule load_tuple_array) simp_all
  moreover have "decode c (h_node\<lparr>payload := Array ys,
      attrs := (attrs h_node)(''type'' \<mapsto> AttrList [''<class 'tuple'>''])\<rparr>) = Inr (PyTuple ys)"
    by (simp add: decode_tuple_tag load_tuple_array)
  moreover have "load_set_dataset (h_node\<lparr>payload := Array ys,
      attrs := (attrs h_node)(''type'' \<mapsto> AttrList [''<class 'set'>''])\<rparr>) =
        Inr (PySet (remdups ys))"
    by (rule load_set_array) simp_all
  moreover have "decode c (h_node\<lparr>payload := Array ys,
      attrs := (attrs h_node)(''type'' \<mapsto> AttrList [''<class 'set'>''])\<rparr>) =
        Inr (PySet (remdups ys))"
    by (simp add: decode_set_tag load_set_array)
  ultimately show ?thesis
    by (simp only: hkl_types_dict_simps simp_thms)
qed

theorem container_tags_witness:
  "(Map.empty :: group) (dataset_name 0) = None \<and>
   node_at (create_listlike_dataset (PyTuple [AInt 1, AInt 2]) Map.empty 0 []) 0 =
     Some \<lparr>payload = Array [AInt 1, AInt 2], options = [],
           attrs = [''type'' \<mapsto> AttrList [''<class 'tuple'>'']]\<rparr> \<and>
   decode no_coerce \<lparr>payload = Array [AInt 1, AInt 2], options = [],
           attrs = [''type'' \<mapsto> AttrList [''<class 'tuple'>'']]\<rparr> =
     Inr (PyTuple [AInt 1, AInt 2]) \<and>
   decode no_coerce \<lparr>payload = Array [AInt 3, AInt 1, AInt 3], options = [],
           attrs = [''type'' \<mapsto> AttrList [''<class 'list'>'']]\<rparr> =
     Inr (PyList [AInt 3, AInt 1, AInt 3]) \<and>
   decode no_coerce \<lparr>payload = Array [AInt 3, AInt 1, AInt 3], options = [],
           attrs = [''type'' \<mapsto> AttrList [''<class 'set'>'']]\<rparr> =
     Inr (PySet [AInt 1, AInt 3])"
  using container_tags [of Map.empty 0 "[AInt 1, AInt 2]" "[]" no_coerce
      "\<lparr>payload = Array [], options = [], attrs = Map.empty\<rparr>" "[AInt 1, AInt 2]"]
    container_tags [of Map.empty 0 "[AInt 1, AInt 2]" "[]" no_coerce
      "\<lparr>payload = Array [], options = [], attrs = Map.empty\<rparr>" "[AInt 3, AInt 1, AInt 3]"]
  by simp

text \<open>
  C6. Subtype fidelity. Encoded at a free position and decoded, \<^verbatim>\<open>True\<close> comes back as the
  boolean \<^verbatim>\<open>True\<close>, not as the integer 1, and \<^verbatim>\<open>3+4j\<close> comes back as the complex number
  with real part 3 and imaginary part 4 (\<open>0x4008000000000000\<close> and \<open>0x4010000000000000\<close>
  are the binary64 patterns of 3.0 and 4.0). The nodes of \<^verbatim>\<open>True\<close>, of the integer 1 and of
  \<^verbatim>\<open>3+4j\<close> carry the same type tag \<^verbatim>\<open>python_dtype\<close> and differ in \<^verbatim>\<open>python_subdtype\<close>, as
  does every node \<^verbatim>\<open>create_python_dtype_dataset\<close> writes for a scalar-numeric value.
  At decode time \<^verbatim>\<open>python_subdtype\<close> alone selects the kind: on any node with the type tag
  \<^verbatim>\<open>python_dtype\<close>, whatever its payload, its options and its other attributes, the
  loader calls the class that \<^verbatim>\<open>python_subdtype\<close> names on the payload, and every value it
  returns is of that class. So the stored integer 1 under the subtype of \<^verbatim>\<open>bool\<close> decodes
  to the boolean \<^verbatim>\<open>True\<close>, and the stored boolean \<^verbatim>\<open>True\<close> under the subtype of \<^verbatim>\<open>int\<close>
  decodes to the integer 1.
\<close>

theorem subtype_fidelity:
  assumes "h_group (dataset_name call_id) = None"
    and "type_of_atom a \<in> {T_int, T_float, T_bool, T_complex}"
    and "t \<in> {T_int, T_float, T_bool, T_complex}"
  shows "(\<exists>n. node_at (encode (Atom (ABool True)) h_group call_id kw) call_id = Some n \<and>
            attrs n ''type'' = Some (AttrList [''python_dtype'']) \<and>
            attrs n ''python_subdtype'' = Some (AttrBytes ''<class 'bool'>'') \<and>
            decode c n = Inr (Atom (ABool True)) \<and> decode c n \<noteq> Inr (Atom (AInt 1))) \<and>
         (\<exists>n. node_at (encode (Atom (AInt 1)) h_group call_id kw) call_id = Some n \<and>
            attrs n ''type'' = Some (AttrList [''python_dtype'']) \<and>
            attrs n ''python_subdtype'' = Some (AttrBytes ''<class 'int'>'') \<and>
            decode c n = Inr (Atom (AInt 1)) \<and> decode c n \<noteq> Inr (Atom (ABool True))) \<and>
         (\<exists>n. node_at (encode (Atom (AComplex 0x4008000000000000 0x4010000000000000))
                  h_group call_id kw) call_id = Some n \<and>
            attrs n ''type'' = Some (AttrList [''python_dtype'']) \<and>
            attrs n ''python_subdtype'' = Some (AttrBytes ''<class 'complex'>'') \<and>
            decode c n = Inr (Atom (AComplex 0x4008000000000000 0x4010000000000000))) \<and>
         encode (Atom a) h_group call_id kw =
           create_python_dtype_dataset (Atom a) h_group call_id kw \<and>
         (\<forall>n. node_at (create_python_dtype_dataset (Atom a) h_group call_id kw) call_id = Some n
            \<longrightarrow> attrs n ''type'' = Some (AttrList [''python_dtype'']) \<and>
                attrs n ''python_subdtype'' = Some (AttrBytes (str_type (type_of_atom a)))) \<and>
         decode c (h_node\<lparr>attrs := (attrs h_node)
             (''type'' \<mapsto> AttrList [''python_dtype''],
              ''python_subdtype'' \<mapsto> AttrBytes (str_type t))\<rparr>) =
           load_python_dtype_dataset c (h_node\<lparr>attrs := (attrs h_node)
             (''type'' \<mapsto> AttrList [''python_dtype''],
              ''python_subdtype'' \<mapsto> AttrBytes (str_type t))\<rparr>) \<and>
         load_python_dtype_dataset c (h_node\<lparr>attrs := (attrs h_node)
             (''type'' \<mapsto> AttrList [''python_dtype''],
              ''python_subdtype'' \<mapsto> AttrBytes (str_type t))\<rparr>) =
           construct c t (payload h_node) \<and>
         (\<forall>w. construct c t (payload h_node) = Inr w \<longrightarrow> type_py w = t) \<and>
         decode c (h_node\<lparr>payload := Scalar (AInt 1), attrs := (attrs h_node)
             (''type'' \<mapsto> AttrList [''python_dtype''],
              ''python_subdtype'' \<mapsto> AttrBytes ''<class 'bool'>'')\<rparr>) =
           Inr (Atom (ABool True)) \<and>
         decode c (h_node\<lparr>payload := Scalar (ABool True), attrs := (attrs h_node)
             (''type'' \<mapsto> AttrList [''python_dtype''],
              ''python_subdtype'' \<mapsto> AttrBytes ''<class 'int'>'')\<rparr>) =
           Inr (Atom (AInt 1))"
proof -
  have rt: "\<exists>n. node_at (encode (Atom b) h_group call_id kw) call_id = Some n \<and>
      attrs n ''type'' = Some (AttrList [''python_dtype'']) \<and>
      attrs n ''python_subdtype'' = Some (AttrBytes (str_type (type_of_atom b))) \<and>
      decode c n = Inr (Atom b)"
    if "type_of_atom b \<in> {T_int, T_float, T_bool, T_complex}" for b
    using that assms(1)
    by (simp add: encode_numeric python_dtype_node decode_python_dtype_tag load_numeric_node)
  have true_node:
    "\<exists>n. node_at (encode (Atom (ABool True)) h_group call_id kw) call_id = Some n \<and>
      attrs n ''type'' = Some (AttrList [''python_dtype'']) \<and>
      attrs n ''python_subdtype'' = Some (AttrBytes ''<class 'bool'>'') \<and>
      decode c n = Inr (Atom (ABool True)) \<and> decode c n \<noteq> Inr (Atom (AInt 1))"
    using rt [of "ABool True"] by (auto simp add: str_type_simps)
  have one_node:
    "\<exists>n. node_at (encode (Atom (AInt 1)) h_group call_id kw) call_id = Some n \<and>
      attrs n ''type'' = Some (AttrList [''python_dtype'']) \<and>
      attrs n ''python_subdtype'' = Some (AttrBytes ''<class 'int'>'') \<and>
      decode c n = Inr (Atom (AInt 1)) \<and> decode c n \<noteq> Inr (Atom (ABool True))"
    using rt [of "AInt 1"] by (auto simp add: str_type_simps)
  have complex_node:
    "\<exists>n. node_at (encode (Atom (AComplex 0x4008000000000000 0x4010000000000000))
        h_group call_id kw) call_id = Some n \<and>
      attrs n ''type'' = Some (AttrList [''python_dtype'']) \<and>
      attrs n ''python_subdtype'' = Some (AttrBytes ''<class 'complex'>'') \<and>
      decode c n = Inr (Atom (AComplex 0x4008000000000000 0x4010000000000000))"
    using rt [of "AComplex 0x4008000000000000 0x4010000000000000"]
    by (auto simp add: str_type_simps)
  have tags: "\<forall>n. node_at (create_python_dtype_dataset (Atom a) h_group call_id kw) call_id = Some n
      \<longrightarrow> attrs n ''type'' = Some (AttrList [''python_dtype'']) \<and>
          attrs n ''python_subdtype'' = Some (AttrBytes (str_type (type_of_atom a)))"
    using assms(1,2) by (simp add: python_dtype_node)
  let ?N = "h_node\<lparr>attrs := (attrs h_node)
      (''type'' \<mapsto> AttrList [''python_dtype''],
       ''python_subdtype'' \<mapsto> AttrBytes (str_type t))\<rparr>"
  have dec: "decode c ?N = load_python_dtype_dataset c ?N"
    by (simp add: decode_python_dtype_tag)
  have "load_python_dtype_dataset c ?N = construct c t (payload ?N)"
    using assms(3) by (intro load_python_dtype_known) simp_all
  then have load: "load_python_dtype_dataset c ?N = construct c t (payload h_node)"
    by simp
  have kind: "\<forall>w. construct c t (payload h_node) = Inr w \<longrightarrow> type_py w = t"
    using assms(3) by (auto dest: construct_kind)
  let ?B = "h_node\<lparr>payload := Scalar (AInt 1), attrs := (attrs h_node)
      (''type'' \<mapsto> AttrList [''python_dtype''],
       ''python_subdtype'' \<mapsto> AttrBytes ''<class 'bool'>'')\<rparr>"
  have "load_python_dtype_dataset c ?B = construct c T_bool (payload ?B)"
    by (intro load_python_dtype_known) (simp_all add: str_type_simps)
  then have as_bool: "decode c ?B = Inr (Atom (ABool True))"
    by (simp add: decode_python_dtype_tag)
  let ?I = "h_node\<lparr>payload := Scalar (ABool True), attrs := (attrs h_node)
      (''type'' \<mapsto> AttrList [''python_dtype''],
       ''python_subdtype'' \<mapsto> AttrBytes ''<class 'int'>'')\<rparr>"
  have "load_python_dtype_dataset c ?I = construct c T_int (payload ?I)"
    by (intro load_python_dtype_known) (simp_all add: str_type_simps)
  then have as_int: "decode c ?I = Inr (Atom (AInt 1))"
    by (simp add: decode_python_dtype_tag)
  from true_node one_node complex_node tags dec load kind as_bool as_int
    encode_numeric [OF assms(2), of h_group call_id kw]
  show ?thesis
    by blast
qed

theorem subtype_fidelity_witness:
  "(Map.empty :: group) (dataset_name 0) = None \<and>
   type_of_atom (AFloat 0x4008000000000000) \<in> {T_int, T_float, T_bool, T_complex} \<and>
   T_bool \<in> {T_int, T_float, T_bool, T_complex} \<and>
   (\<exists>n. node_at (encode (Atom (ABool True)) Map.empty 0 []) 0 = Some n \<and>
      attrs n ''type'' = Some (AttrList [''python_dtype'']) \<and>
      attrs n ''python_subdtype'' = Some (AttrBytes ''<class 'bool'>'') \<and>
      decode no_coerce n = Inr (Atom (ABool True)) \<and>
      decode no_coerce n \<noteq> Inr (Atom (AInt 1))) \<and>
   (\<exists>n. node_at (encode (Atom (AComplex 0x4008000000000000 0x4010000000000000))
          Map.empty 0 []) 0 = Some n \<and>
      attrs n ''type'' = Some (AttrList [''python_dtype'']) \<and>
      attrs n ''python_subdtype'' = Some (AttrBytes ''<class 'complex'>'') \<and>
      decode no_coerce n = Inr (Atom (AComplex 0x4008000000000000 0x4010000000000000))) \<and>
   decode no_coerce \<lparr>payload = Scalar (AInt 1), options = [],
       attrs = [''type'' \<mapsto> AttrList [''python_dtype''],
                ''python_subdtype'' \<mapsto> AttrBytes ''<class 'bool'>'']\<rparr> =
     Inr (Atom (ABool True)) \<and>
   decode no_coerce \<lparr>payload = Scalar (AInt 1), options = [],
       attrs = [''type'' \<mapsto> AttrList [''python_dtype''],
                ''python_subdtype'' \<mapsto> AttrBytes ''<class 'int'>'']\<rparr> =
     Inr (Atom (AInt 1)) \<and>
   decode no_coerce \<lparr>payload = Scalar (ABool True), options = [],
       attrs = [''type'' \<mapsto> AttrList [''python_dtype''],
                ''python_subdtype'' \<mapsto> AttrBytes ''<class 'int'>'']\<rparr> =
     Inr (Atom (AInt 1))"
proof -
  have free: "(Map.empty :: group) (dataset_name 0) = None"
    by simp
  have kind: "type_of_atom (AFloat 0x4008000000000000) \<in> {T_int, T_float, T_bool, T_complex}"
    by simp
  have sub: "T_bool \<in> {T_int, T_float, T_bool, T_complex}"
    by simp
  have same: "decode no_coerce \<lparr>payload = Scalar (AInt 1), options = [],
       attrs = [''type'' \<mapsto> AttrList [''python_dtype''],
                ''python_subdtype'' \<mapsto> AttrBytes ''<class 'int'>'']\<rparr> = Inr (Atom (AInt 1))"
    by (simp add: decode_python_dtype_tag load_python_dtype_dataset_def get_type_and_data_tag
        type_dict_get_def type_dict_simps)
  note inst = subtype_fidelity [of Map.empty 0 "AFloat 0x4008000000000000" T_bool "[]" no_coerce
      "\<lparr>payload = Scalar (AInt 1), options = [], attrs = Map.empty\<rparr>", OF free kind sub]
  have as_bool: "decode no_coerce \<lparr>payload = Scalar (AInt 1), options = [],
       attrs = [''type'' \<mapsto> AttrList [''python_dtype''],
                ''python_subdtype'' \<mapsto> AttrBytes ''<class 'bool'>'']\<rparr> = Inr (Atom (ABool True))"
    using inst by simp
  have as_int: "decode no_coerce \<lparr>payload = Scalar (ABool True), options = [],
       attrs = [''type'' \<mapsto> AttrList [''python_dtype''],
                ''python_subdtype'' \<mapsto> AttrBytes ''<class 'int'>'']\<rparr> = Inr (Atom (AInt 1))"
    using inst by simp
  from free kind sub same as_bool as_int inst
  show ?thesis by blast
qed

text \<open>
  C7. Encoding a byte string at a free position runs \<^verbatim>\<open>create_stringlike_dataset\<close> and
  leaves a node tagged \<^verbatim>\<open>bytes\<close>, which decodes through \<^verbatim>\<open>load_bytes_dataset\<close> to the same
  byte string; encoding a text string leaves a node tagged \<^verbatim>\<open>string\<close>, which decodes
  through \<^verbatim>\<open>load_string_dataset\<close> to the same text string. So a byte string never comes
  back as a text string, nor a text string as a byte string; the witness is the pair
  \<^verbatim>\<open>b"ab"\<close>, \<^verbatim>\<open>"ab"\<close>.
\<close>

theorem bytes_and_text_stay_apart:
  assumes "h_group (dataset_name call_id) = None"
  shows "encode (Atom (ABytes s)) h_group call_id kw =
           create_stringlike_dataset (Atom (ABytes s)) h_group call_id kw \<and>
         (\<exists>n. node_at (encode (Atom (ABytes s)) h_group call_id kw) call_id = Some n \<and>
            attrs n ''type'' = Some (AttrList [''bytes'']) \<and>
            decode c n = load_bytes_dataset c n \<and>
            decode c n = Inr (Atom (ABytes s)) \<and> decode c n \<noteq> Inr (Atom (AStr s))) \<and>
         encode (Atom (AStr s)) h_group call_id kw =
           create_stringlike_dataset (Atom (AStr s)) h_group call_id kw \<and>
         (\<exists>n. node_at (encode (Atom (AStr s)) h_group call_id kw) call_id = Some n \<and>
            attrs n ''type'' = Some (AttrList [''string'']) \<and>
            decode c n = load_string_dataset c n \<and>
            decode c n = Inr (Atom (AStr s)) \<and> decode c n \<noteq> Inr (Atom (ABytes s)))"
proof -
  have "\<exists>n. node_at (encode (Atom (ABytes s)) h_group call_id kw) call_id = Some n \<and>
      attrs n ''type'' = Some (AttrList [''bytes'']) \<and>
      decode c n = load_bytes_dataset c n \<and>
      decode c n = Inr (Atom (ABytes s)) \<and> decode c n \<noteq> Inr (Atom (AStr s))"
    using assms by (simp add: encode_stringlike bytes_node decode_bytes_tag load_bytes_first)
  moreover
  have "\<exists>n. node_at (encode (Atom (AStr s)) h_group call_id kw) call_id = Some n \<and>
      attrs n ''type'' = Some (AttrList [''string'']) \<and>
      decode c n = load_string_dataset c n \<and>
      decode c n = Inr (Atom (AStr s)) \<and> decode c n \<noteq> Inr (Atom (ABytes s))"
    using assms by (simp add: encode_stringlike string_node decode_string_tag load_string_first)
  moreover note encode_stringlike [of s h_group call_id kw]
  ultimately show ?thesis by blast
qed

theorem bytes_and_text_stay_apart_witness:
  "(Map.empty :: group) (dataset_name 0) = None \<and>
   (\<exists>n. node_at (encode (Atom (ABytes ''ab'')) Map.empty 0 []) 0 = Some n \<and>
        attrs n ''type'' = Some (AttrList [''bytes'']) \<and>
        decode no_coerce n = Inr (Atom (ABytes ''ab'')) \<and>
        decode no_coerce n \<noteq> Inr (Atom (AStr ''ab''))) \<and>
   (\<exists>n. node_at (encode (Atom (AStr ''ab'')) Map.empty 0 []) 0 = Some n \<and>
        attrs n ''type'' = Some (AttrList [''string'']) \<and>
        decode no_coerce n = Inr (Atom (AStr ''ab'')) \<and>
        decode no_coerce n \<noteq> Inr (Atom (ABytes ''ab''))) \<and>
   node_at (encode (Atom (ABytes ''ab'')) Map.empty 0 []) 0 =
     Some \<lparr>payload = Array [ABytes ''ab''], options = [],
           attrs = [''type'' \<mapsto> AttrList [''bytes'']]\<rparr> \<and>
   node_at (encode (Atom (AStr ''ab'')) Map.empty 0 []) 0 =
     Some \<lparr>payload = Array [AStr ''ab''], options = [],
           attrs = [''type'' \<mapsto> AttrList [''string'']]\<rparr>"
proof -
  have free: "(Map.empty :: group) (dataset_name 0) = None"
    by simp
  have nodes: "node_at (encode (Atom (ABytes ''ab'')) Map.empty 0 []) 0 =
      Some \<lparr>payload = Array [ABytes ''ab''], options = [],
            attrs = [''type'' \<mapsto> AttrList [''bytes'']]\<rparr>"
    "node_at (encode (Atom (AStr ''ab'')) Map.empty 0 []) 0 =
      Some \<lparr>payload = Array [AStr ''ab''], options = [],
            attrs = [''type'' \<mapsto> AttrList [''string'']]\<rparr>"
    by (simp_all add: encode_stringlike bytes_node string_node)
  from free nodes
    bytes_and_text_stay_apart [of Map.empty 0 "''ab''" "[]" no_coerce, OF free]
  show ?thesis by blast
qed

text \<open>
  C8. A node whose type tag is \<^verbatim>\<open>none\<close> decodes to \<^verbatim>\<open>None\<close> whatever its payload holds:
  \<^verbatim>\<open>load_none_dataset\<close> never reads the node. In particular, encoding \<^verbatim>\<open>None\<close> at a free
  position runs \<^verbatim>\<open>create_none_dataset\<close>, and decoding the node this leaves there yields
  \<^verbatim>\<open>None\<close>.
\<close>

theorem none_decodes_to_None:
  assumes "attrs h_node ''type'' = Some (AttrList [''none''])"
    and "h_group (dataset_name call_id) = None"
  shows "load_none_dataset h_node = Inr PyNone \<and>
         decode c h_node = load_none_dataset h_node \<and>
         decode c h_node = Inr PyNone \<and>
         encode PyNone h_group call_id kw = create_none_dataset PyNone h_group call_id kw \<and>
         (\<exists>n. node_at (encode PyNone h_group call_id kw) call_id = Some n \<and>
            attrs n ''type'' = Some (AttrList [''none'']) \<and>
            decode c n = Inr PyNone)"
proof -
  have "decode c h_node = load_none_dataset h_node"
    using assms(1) by (simp add: decode_none_tag)
  moreover have "load_none_dataset h_node = Inr PyNone"
    by (simp add: load_none_dataset_def)
  moreover have "\<exists>n. node_at (encode PyNone h_group call_id kw) call_id = Some n \<and>
      attrs n ''type'' = Some (AttrList [''none'']) \<and> decode c n = Inr PyNone"
    using assms(2) by (simp add: encode_none none_node decode_none_tag load_none_dataset_def)
  moreover note encode_none [of h_group call_id kw]
  ultimately show ?thesis by simp
qed

theorem none_decodes_to_None_witness:
  "attrs \<lparr>payload = Array [AStr ''x'', AInt 3], options = [],
          attrs = [''type'' \<mapsto> AttrList [''none'']]\<rparr> ''type'' = Some (AttrList [''none'']) \<and>
   (Map.empty :: group) (dataset_name 0) = None \<and>
   decode no_coerce \<lparr>payload = Array [AStr ''x'', AInt 3], options = [],
          attrs = [''type'' \<mapsto> AttrList [''none'']]\<rparr> = Inr PyNone \<and>
   (\<exists>n. node_at (encode PyNone Map.empty 0 []) 0 = Some n \<and>
      attrs n ''type'' = Some (AttrList [''none'']) \<and> decode no_coerce n = Inr PyNone)"
proof -
  have tag: "attrs \<lparr>payload = Array [AStr ''x'', AInt 3], options = [],
      attrs = [''type'' \<mapsto> AttrList [''none'']]\<rparr> ''type'' = Some (AttrList [''none''])"
    by simp
  have free: "(Map.empty :: group) (dataset_name 0) = None"
    by simp
  from tag free
    none_decodes_to_None [of "\<lparr>payload = Array [AStr ''x'', AInt 3], options = [],
      attrs = [''type'' \<mapsto> AttrList [''none'']]\<rparr>" Map.empty 0 no_coerce "[]", OF tag free]
  show ?thesis by blast
qed

text \<open>
  C9, as stated, fails: no loader checks the length of the payload. A \<^verbatim>\<open>none\<close> node with
  an empty payload decodes to \<^verbatim>\<open>None\<close>, and a \<^verbatim>\<open>bytes\<close> or \<^verbatim>\<open>string\<close> node with a
  two-element payload decodes to its first element; none of the three fails.
\<close>

theorem payload_length_counterexample:
  "decode no_coerce \<lparr>payload = Array [], options = [],
      attrs = [''type'' \<mapsto> AttrList [''none'']]\<rparr> = Inr PyNone \<and>
   decode no_coerce \<lparr>payload = Array [ABytes ''a'', ABytes ''b''], options = [],
      attrs = [''type'' \<mapsto> AttrList [''bytes'']]\<rparr> = Inr (Atom (ABytes ''a'')) \<and>
   decode no_coerce \<lparr>payload = Array [AStr ''a'', AStr ''b''], options = [],
      attrs = [''type'' \<mapsto> AttrList [''string'']]\<rparr> = Inr (Atom (AStr ''a''))"
  by (simp add: decode_none_tag decode_bytes_tag decode_string_tag load_none_dataset_def
      load_bytes_first load_string_first)

text \<open>
  C9, amended. A node tagged \<^verbatim>\<open>bytes\<close> or \<^verbatim>\<open>string\<close> whose payload is an empty array fails
  to decode, with Python's \<^verbatim>\<open>IndexError\<close> from \<^verbatim>\<open>data[0]\<close>, surfaced to the caller. No
  other length is checked: on a payload of one or more elements the same loaders apply
  \<^verbatim>\<open>bytes\<close> respectively \<^verbatim>\<open>str\<close> to the first element and ignore the rest, and a node
  tagged \<^verbatim>\<open>none\<close> decodes to \<^verbatim>\<open>None\<close> whatever its payload.
\<close>

theorem payload_length_unchecked:
  "load_bytes_dataset c (h_node\<lparr>payload := Array [],
       attrs := (attrs h_node)(''type'' \<mapsto> AttrList [''bytes''])\<rparr>) = Inl IndexError \<and>
   decode c (h_node\<lparr>payload := Array [],
       attrs := (attrs h_node)(''type'' \<mapsto> AttrList [''bytes''])\<rparr>) = Inl IndexError \<and>
   load_string_dataset c (h_node\<lparr>payload := Array [],
       attrs := (attrs h_node)(''type'' \<mapsto> AttrList [''string''])\<rparr>) = Inl IndexError \<and>
   decode c (h_node\<lparr>payload := Array [],
       attrs := (attrs h_node)(''type'' \<mapsto> AttrList [''string''])\<rparr>) = Inl IndexError \<and>
   load_bytes_dataset c (h_node\<lparr>payload := Array (x # xs),
       attrs := (attrs h_node)(''type'' \<mapsto> AttrList [''bytes''])\<rparr>) =
     construct c T_bytes (Scalar x) \<and>
   decode c (h_node\<lparr>payload := Array (x # xs),
       attrs := (attrs h_node)(''type'' \<mapsto> AttrList [''bytes''])\<rparr>) =
     construct c T_bytes (Scalar x) \<and>
   load_string_dataset c (h_node\<lparr>payload := Array (x # xs),
       attrs := (attrs h_node)(''type'' \<mapsto> AttrList [''string''])\<rparr>) =
     construct c T_str (Scalar x) \<and>
   decode c (h_node\<lparr>payload := Array (x # xs),
       attrs := (attrs h_node)(''type'' \<mapsto> AttrList [''string''])\<rparr>) =
     construct c T_str (Scalar x) \<and>
   load_none_dataset (h_node\<lparr>attrs := (attrs h_node)(''type'' \<mapsto> AttrList [''none''])\<rparr>) =
     Inr PyNone \<and>
   decode c (h_node\<lparr>attrs := (attrs h_node)(''type'' \<mapsto> AttrList [''none''])\<rparr>) = Inr PyNone"
  by (simp add: decode_tag hkl_types_dict_simps load_bytes_dataset_def load_string_dataset_def
      load_none_dataset_def get_type_and_data_tag)

theorem payload_length_unchecked_witness:
  "decode no_coerce \<lparr>payload = Array [], options = [],
       attrs = [''type'' \<mapsto> AttrList [''bytes'']]\<rparr> = Inl IndexError \<and>
   decode no_coerce \<lparr>payload = Array [], options = [],
       attrs = [''type'' \<mapsto> AttrList [''string'']]\<rparr> = Inl IndexError \<and>
   decode no_coerce \<lparr>payload = Array [ABytes ''a'', ABytes ''b''], options = [],
       attrs = [''type'' \<mapsto> AttrList [''bytes'']]\<rparr> = Inr (Atom (ABytes ''a'')) \<and>
   decode no_coerce \<lparr>payload = Array [ABytes ''a'', ABytes ''b''], options = [],
       attrs = [''type'' \<mapsto> AttrList [''none'']]\<rparr> = Inr PyNone"
  using payload_length_unchecked [of no_coerce
      "\<lparr>payload = Scalar (AInt 0), options = [], attrs = Map.empty\<rparr>" "ABytes ''a''" "[ABytes ''b'']"]
    payload_length_unchecked [of no_coerce
      "\<lparr>payload = Array [ABytes ''a'', ABytes ''b''], options = [], attrs = Map.empty\<rparr>"
      "ABytes ''a''" "[ABytes ''b'']"]
  by simp

text \<open>
  C10. Called on a value that is neither a byte string nor a text string, the string-like
  dumper raises nothing and returns the group it was given: no dataset is created and no
  node is changed, because its \<^verbatim>\<open>if\<close>/\<^verbatim>\<open>elif\<close> has no \<^verbatim>\<open>else\<close>.
\<close>

theorem stringlike_other_kind_no_effect:
  assumes "type_py py_obj \<noteq> T_bytes" and "type_py py_obj \<noteq> T_str"
  shows "create_stringlike_dataset py_obj h_group call_id kw = Inr h_group"
proof (cases py_obj)
  case (Atom a)
  with assms show ?thesis
    by (cases a) (simp_all add: create_stringlike_dataset_def)
qed (simp_all add: create_stringlike_dataset_def)

theorem stringlike_other_kind_no_effect_witness:
  "type_py (PyByteArray ''ab'') \<noteq> T_bytes \<and> type_py (PyByteArray ''ab'') \<noteq> T_str \<and>
   create_stringlike_dataset (PyByteArray ''ab'') Map.empty 7 [(''compression'', AStr ''gzip'')] =
     Inr Map.empty \<and>
   create_stringlike_dataset (Atom (AInt 5)) Map.empty 7 [] = Inr Map.empty"
  using stringlike_other_kind_no_effect
    [of "PyByteArray ''ab''" Map.empty 7 "[(''compression'', AStr ''gzip'')]"]
    stringlike_other_kind_no_effect [of "Atom (AInt 5)" Map.empty 7 "[]"]
  by simp

end
